theory Spec2Isabelle
  imports Complex_Main "HOL-Library.AList"
begin

section \<open>The cache backend and the conditions of one request\<close>

text \<open>
  Both services keep one global, \<^verbatim>\<open>redis_client: redis.Redis | None\<close>, and talk through it
  to a key-value store with string keys, string values and a per-key expiry. The store is
  the list of its entries: a key, a value and the instant (in seconds) at which the entry
  expires. The keys of a store are distinct, which the commands preserve; a lookup is
  \<open>map_of\<close>.

  The code that runs inside Redis and inside the Redis client library is not part of the
  repository. It is modelled by the four commands below, as the library documents them:
  \<^item> \<^verbatim>\<open>GET\<close> answers the value of an entry that has not expired, and nothing otherwise,
    or raises;
  \<^item> \<^verbatim>\<open>SET key value EX ttl\<close> replaces the entry and lets it expire \<open>ttl\<close> seconds
    later; the server refuses an expiry that is not positive, and a refused or failed
    command raises in the client;
  \<^item> \<^verbatim>\<open>DEL\<close> removes the entry, or raises;
  \<^item> \<^verbatim>\<open>KEYS prefix*\<close> answers the keys of the live entries that start with the prefix,
    or raises.

  What the environment decides during one request is collected in a record: the reading
  of the clock, and for each of the four commands whether it raises in this request (an
  unreachable or read-only backend, a refused command). The source catches the failure
  of \<^verbatim>\<open>SET\<close> everywhere and the failure of \<^verbatim>\<open>DEL\<close> in \<^verbatim>\<open>delete_cached_user\<close>; a failing
  \<^verbatim>\<open>GET\<close> or \<^verbatim>\<open>KEYS\<close>, and a failing \<^verbatim>\<open>DEL\<close> after a corrupt entry, are not caught and
  end the request.
\<close>

datatype error =
  RedisError | RequestError | IntegrityError | TypeError | AttributeError | OverflowError

datatype redis_handle = Redis

type_synonym redis_store = "(string \<times> string \<times> int) list"

record server =
  redis_client :: "redis_handle option"
  redis_data :: redis_store

record conditions =
  clock :: int
  get_raises :: bool
  keys_raises :: bool
  set_raises :: bool
  delete_raises :: bool

record config =
  CACHE_TTL :: int

text \<open>The value of a key whose entry has not expired.\<close>

definition live_value :: "conditions \<Rightarrow> redis_store \<Rightarrow> string \<Rightarrow> string option" where
  "live_value c d k =
     (case map_of d k of
        None \<Rightarrow> None
      | Some (v, expiry) \<Rightarrow> if clock c < expiry then Some v else None)"

definition redis_get ::
  "conditions \<Rightarrow> redis_store \<Rightarrow> string \<Rightarrow> error + string option" where
  "redis_get c d k = (if get_raises c then Inl RedisError else Inr (live_value c d k))"

definition redis_set ::
  "conditions \<Rightarrow> redis_store \<Rightarrow> string \<Rightarrow> string \<Rightarrow> int \<Rightarrow> error + redis_store" where
  "redis_set c d k v ex =
     (if set_raises c \<or> ex \<le> 0 then Inl RedisError
      else Inr (AList.update k (v, clock c + ex) d))"

definition redis_delete :: "conditions \<Rightarrow> redis_store \<Rightarrow> string \<Rightarrow> error + redis_store" where
  "redis_delete c d k = (if delete_raises c then Inl RedisError else Inr (AList.delete k d))"

definition redis_keys ::
  "conditions \<Rightarrow> redis_store \<Rightarrow> string \<Rightarrow> error + string list" where
  "redis_keys c d pre =
     (if keys_raises c then Inl RedisError
      else Inr (filter (\<lambda>k. take (length pre) k = pre \<and> live_value c d k \<noteq> None)
                  (map fst d)))"

text \<open>\<^verbatim>\<open>asyncio.gather\<close>: the results in order, or the first exception.\<close>

fun gather :: "(error + 'a) list \<Rightarrow> error + 'a list" where
  "gather [] = Inr []"
| "gather (r # rs) =
     (case r of
        Inl e \<Rightarrow> Inl e
      | Inr v \<Rightarrow> (case gather rs of Inl e \<Rightarrow> Inl e | Inr vs \<Rightarrow> Inr (v # vs)))"

text \<open>Python's truth value of an \<^verbatim>\<open>Optional[str]\<close>: \<^verbatim>\<open>None\<close> and the empty string are false.\<close>

definition truthy :: "string option \<Rightarrow> bool" where
  "truthy cached = (case cached of None \<Rightarrow> False | Some v \<Rightarrow> v \<noteq> [])"


section \<open>The rate service (main.py)\<close>

text \<open>
  The upstream API and the \<^verbatim>\<open>json\<close> module are outside the repository as well, and are
  parameters of the model: \<open>api base\<close> is what \<^verbatim>\<open>get(f"{API_URL}{base}").json()\<close> returns
  (\<open>None\<close> when the request or the parse raises), \<open>json_dumps\<close> is \<^verbatim>\<open>json.dumps\<close> and
  \<open>json_loads\<close> is \<^verbatim>\<open>json.loads\<close> (\<open>None\<close> when it raises). \<^verbatim>\<open>json.dumps\<close> is total: it is
  only applied to what the upstream parse returned. The payload type \<open>'j\<close> is left open
  here.
\<close>

record 'j rates_env = config +
  api :: "string \<Rightarrow> 'j option"
  json_dumps :: "'j \<Rightarrow> string"
  json_loads :: "string \<Rightarrow> 'j option"

text \<open>Lines 49 to 57 of \<^verbatim>\<open>get_cached_rate\<close>: fetch, write to the cache, swallow a failed write.\<close>

definition fetch_and_cache ::
  "'j rates_env \<Rightarrow> conditions \<Rightarrow> server \<Rightarrow> string \<Rightarrow> (error + 'j) \<times> server" where
  "fetch_and_cache env c st base_currency =
     (case api env base_currency of
        None \<Rightarrow> (Inl RequestError, st)
      | Some data \<Rightarrow>
          (case redis_set c (redis_data st) (''rates:'' @ base_currency)
                  (json_dumps env data) (CACHE_TTL env) of
             Inl e \<Rightarrow> (Inr data, st)
           | Inr d' \<Rightarrow> (Inr data, st\<lparr>redis_data := d'\<rparr>)))"

definition get_cached_rate ::
  "'j rates_env \<Rightarrow> conditions \<Rightarrow> server \<Rightarrow> string \<Rightarrow> (error + 'j) \<times> server" where
  "get_cached_rate env c st base_currency =
     (case redis_client st of
        None \<Rightarrow>
          (case api env base_currency of
             None \<Rightarrow> (Inl RequestError, st)
           | Some data \<Rightarrow> (Inr data, st))
      | Some client \<Rightarrow>
          (let key = ''rates:'' @ base_currency
           in case redis_get c (redis_data st) key of
                Inl e \<Rightarrow> (Inl e, st)
              | Inr cached \<Rightarrow>
                  if truthy cached then
                    (case json_loads env (the cached) of
                       Some data \<Rightarrow> (Inr data, st)
                     | None \<Rightarrow>
                         (case redis_delete c (redis_data st) key of
                            Inl e \<Rightarrow> (Inl e, st)
                          | Inr d' \<Rightarrow>
                              fetch_and_cache env c (st\<lparr>redis_data := d'\<rparr>) base_currency))
                  else fetch_and_cache env c st base_currency))"

text \<open>
  \<^verbatim>\<open>GET /cache\<close>. The answer is either the error payload or the dictionary that pairs
  each key starting with \<^verbatim>\<open>rates:\<close> with what \<^verbatim>\<open>GET\<close> answers for it, as the list of its
  items. An exception that nothing catches is the left summand.
\<close>

datatype cache_listing =
  Error_payload string | Cached_rates "(string \<times> string option) list"

definition get_cache :: "conditions \<Rightarrow> server \<Rightarrow> error + cache_listing" where
  "get_cache c st =
     (case redis_client st of
        None \<Rightarrow> Inr (Error_payload ''Redis not connected'')
      | Some client \<Rightarrow>
          (case redis_keys c (redis_data st) ''rates:'' of
             Inl e \<Rightarrow> Inl e
           | Inr keys \<Rightarrow>
               if keys = [] then Inr (Cached_rates [])
               else
                 (case gather (map (redis_get c (redis_data st)) keys) of
                    Inl e \<Rightarrow> Inl e
                  | Inr values \<Rightarrow> Inr (Cached_rates (zip keys values)))))"


subsection \<open>Payloads and Python's floats\<close>

text \<open>
  The conversion endpoints look into the payload and compute with Python's \<^verbatim>\<open>float\<close>.
  Dictionaries and floats are not code of the repository; they are modelled as CPython
  defines them.

  A \<^verbatim>\<open>float\<close> is an IEEE 754 binary64 number: a finite one is a sign bit and a magnitude,
  kept here as the exact rational it denotes, so that zero has both signs; the others
  are the two infinities and NaN. \<open>to_binary64\<close> rounds an exact magnitude to the nearest
  binary64 magnitude, ties to the even significand: 53 bits of precision, the exponent
  of the least normal number for the subnormal range, and overflow to infinity.
\<close>

datatype pyfloat = Finite bool rat | Infinite bool | NaN

fun bit_length :: "nat \<Rightarrow> nat" where
  "bit_length n = (if n = 0 then 0 else Suc (bit_length (n div 2)))"

declare bit_length.simps [simp del]

text \<open>The integer \<open>e\<close> with \<open>pow2 e \<le> q < pow2 (e + 1)\<close>, for a positive \<open>q\<close>; \<open>pow2 e\<close> is
  the power of two with the exponent \<open>e\<close>.\<close>

definition ilog2 :: "rat \<Rightarrow> int" where
  "ilog2 q =
     (if 1 \<le> q then int (bit_length (nat \<lfloor>q\<rfloor>)) - 1
      else - int (bit_length (nat (\<lceil>1 / q\<rceil> - 1))))"

definition pow2 :: "int \<Rightarrow> rat" where
  "pow2 e = (if 0 \<le> e then 2 ^ nat e else 1 / 2 ^ nat (- e))"









text \<open>
  What \<^verbatim>\<open>resp.json()\<close> and \<^verbatim>\<open>json.loads\<close> return. A dictionary is the list of its items,
  with distinct keys; \<open>JNull\<close> is Python's \<^verbatim>\<open>None\<close>.
\<close>

datatype json =
  JNull | JBool bool | JInt int | JFloat pyfloat | JStr string
  | JList "json list" | JDict "(string \<times> json) list"




subsection \<open>The conversion endpoint\<close>




section \<open>The user service (users/main.py)\<close>

text \<open>
  The table \<^verbatim>\<open>users(id TEXT PRIMARY KEY, name TEXT)\<close> is a map from an id to a name. The
  methods of \<^verbatim>\<open>UserRepository\<close> open a connection, run one statement, commit and close;
  each is a function from the table to the new table and the method's result.
  \<^verbatim>\<open>user.json()\<close> and \<^verbatim>\<open>User(**json.loads(cached))\<close> belong to libraries and are the
  parameters \<open>user_json\<close> and \<open>parse_user\<close> (\<open>None\<close> when the parse or the validation
  raises).
\<close>

record User =
  user_id :: string
  name :: string

type_synonym users_table = "string \<rightharpoonup> string"

record user_server = server +
  users :: users_table

record users_env = config +
  user_json :: "User \<Rightarrow> string"
  parse_user :: "string \<Rightarrow> User option"

datatype 'a response = Response nat 'a | HTTPException nat string | Unhandled error

definition UserRepository_get_user :: "users_table \<Rightarrow> string \<Rightarrow> User option" where
  "UserRepository_get_user t uid =
     (case t uid of
        None \<Rightarrow> None
      | Some n \<Rightarrow> Some \<lparr>user_id = uid, name = n\<rparr>)"

text \<open>\<^verbatim>\<open>INSERT OR IGNORE\<close>: an existing row is kept; the method returns the default in both cases.\<close>

definition UserRepository_insert_default_user ::
  "users_table \<Rightarrow> string \<Rightarrow> string \<Rightarrow> users_table \<times> User" where
  "UserRepository_insert_default_user t uid default_name =
     ((case t uid of None \<Rightarrow> t(uid \<mapsto> default_name) | Some n \<Rightarrow> t),
      \<lparr>user_id = uid, name = default_name\<rparr>)"

text \<open>A plain \<^verbatim>\<open>INSERT\<close>: the primary key raises \<^verbatim>\<open>sqlite3.IntegrityError\<close> on an existing id.\<close>

definition UserRepository_create_user ::
  "users_table \<Rightarrow> string \<Rightarrow> string \<Rightarrow> error + users_table \<times> User" where
  "UserRepository_create_user t uid n =
     (case t uid of
        Some old \<Rightarrow> Inl IntegrityError
      | None \<Rightarrow> Inr (t(uid \<mapsto> n), \<lparr>user_id = uid, name = n\<rparr>))"

text \<open>\<^verbatim>\<open>cur.rowcount\<close> is the number of rows the \<^verbatim>\<open>WHERE\<close> clause matched: 0 or 1.\<close>

definition UserRepository_update_user ::
  "users_table \<Rightarrow> string \<Rightarrow> string \<Rightarrow> users_table \<times> User option" where
  "UserRepository_update_user t uid n =
     (case t uid of
        None \<Rightarrow> (t, None)
      | Some old \<Rightarrow> (t(uid \<mapsto> n), Some \<lparr>user_id = uid, name = n\<rparr>))"

definition UserRepository_delete_user :: "users_table \<Rightarrow> string \<Rightarrow> users_table \<times> bool" where
  "UserRepository_delete_user t uid = (t(uid := None), t uid \<noteq> None)"

definition get_cached_user ::
  "users_env \<Rightarrow> conditions \<Rightarrow> user_server \<Rightarrow> string \<Rightarrow> (error + User option) \<times> user_server" where
  "get_cached_user env c st uid =
     (case redis_client st of
        None \<Rightarrow> (Inr None, st)
      | Some client \<Rightarrow>
          (let key = ''user:'' @ uid
           in case redis_get c (redis_data st) key of
                Inl e \<Rightarrow> (Inl e, st)
              | Inr cached \<Rightarrow>
                  if truthy cached then
                    (case parse_user env (the cached) of
                       Some u \<Rightarrow> (Inr (Some u), st)
                     | None \<Rightarrow>
                         (case redis_delete c (redis_data st) key of
                            Inl e \<Rightarrow> (Inl e, st)
                          | Inr d' \<Rightarrow> (Inr None, st\<lparr>redis_data := d'\<rparr>)))
                  else (Inr None, st)))"

definition cache_user :: "users_env \<Rightarrow> conditions \<Rightarrow> user_server \<Rightarrow> User \<Rightarrow> user_server" where
  "cache_user env c st u =
     (case redis_client st of
        None \<Rightarrow> st
      | Some client \<Rightarrow>
          (case redis_set c (redis_data st) (''user:'' @ user_id u) (user_json env u)
                  (CACHE_TTL env) of
             Inl e \<Rightarrow> st
           | Inr d' \<Rightarrow> st\<lparr>redis_data := d'\<rparr>))"

definition delete_cached_user :: "conditions \<Rightarrow> user_server \<Rightarrow> string \<Rightarrow> user_server" where
  "delete_cached_user c st uid =
     (case redis_client st of
        None \<Rightarrow> st
      | Some client \<Rightarrow>
          (case redis_delete c (redis_data st) (''user:'' @ uid) of
             Inl e \<Rightarrow> st
           | Inr d' \<Rightarrow> st\<lparr>redis_data := d'\<rparr>))"

text \<open>
  The endpoints. A \<^verbatim>\<open>User\<close> object and a non-empty dictionary are true in Python, so
  \<^verbatim>\<open>if cached\<close>, \<^verbatim>\<open>if not db_user\<close> and \<^verbatim>\<open>if not updated\<close> test for \<^verbatim>\<open>None\<close>. The status
  of a normal return is the one of the route's decorator (200 when it names none).
  \<^verbatim>\<open>HTTPException\<close> carries the status and the detail; an exception that nothing catches
  is \<open>Unhandled\<close>. \<^verbatim>\<open>GET /users\<close> and the listing \<^verbatim>\<open>GET /cache\<close> of this service are not
  needed below.
\<close>

definition get_user ::
  "users_env \<Rightarrow> conditions \<Rightarrow> user_server \<Rightarrow> string \<Rightarrow> User response \<times> user_server" where
  "get_user env c st uid =
     (case get_cached_user env c st uid of
        (Inl e, st1) \<Rightarrow> (Unhandled e, st1)
      | (Inr (Some cached), st1) \<Rightarrow> (Response 200 cached, st1)
      | (Inr None, st1) \<Rightarrow>
          (let (t', db_user) =
                 (case UserRepository_get_user (users st1) uid of
                    Some found \<Rightarrow> (users st1, found)
                  | None \<Rightarrow> UserRepository_insert_default_user (users st1) uid ''John Doe'')
           in (Response 200 db_user, cache_user env c (st1\<lparr>users := t'\<rparr>) db_user)))"

definition create_user ::
  "users_env \<Rightarrow> conditions \<Rightarrow> user_server \<Rightarrow> User \<Rightarrow> User response \<times> user_server" where
  "create_user env c st u =
     (case UserRepository_create_user (users st) (user_id u) (name u) of
        Inl e \<Rightarrow> (HTTPException 409 ''User already exists'', st)
      | Inr (t', created) \<Rightarrow>
          (Response 201 created, cache_user env c (st\<lparr>users := t'\<rparr>) created))"

definition update_user ::
  "users_env \<Rightarrow> conditions \<Rightarrow> user_server \<Rightarrow> string \<Rightarrow> string \<Rightarrow> User response \<times> user_server" where
  "update_user env c st uid new_name =
     (case UserRepository_update_user (users st) uid new_name of
        (t', None) \<Rightarrow> (HTTPException 404 ''User not found'', st\<lparr>users := t'\<rparr>)
      | (t', Some updated) \<Rightarrow>
          (Response 200 updated, cache_user env c (st\<lparr>users := t'\<rparr>) updated))"

definition delete_user :: "conditions \<Rightarrow> user_server \<Rightarrow> string \<Rightarrow> unit response \<times> user_server" where
  "delete_user c st uid =
     (case UserRepository_delete_user (users st) uid of
        (t', False) \<Rightarrow> (HTTPException 404 ''User not found'', st\<lparr>users := t'\<rparr>)
      | (t', True) \<Rightarrow> (Response 204 (), delete_cached_user c (st\<lparr>users := t'\<rparr>) uid))"


section \<open>Degraded mode of the rate service\<close>

text \<open>
  C4. When \<^verbatim>\<open>redis_client\<close> is \<^verbatim>\<open>None\<close>, \<^verbatim>\<open>get_cached_rate\<close> returns what the upstream
  fetch returns, for every base currency, and the server (the client handle and the
  cache store) is left as it was: the cache is neither read nor written, and no error
  comes from the cache. The only error left is the fetch's own.
\<close>

theorem get_cached_rate_degraded:
  assumes "redis_client st = None"
  shows "snd (get_cached_rate env c st base_currency) = st \<and>
         fst (get_cached_rate env c st base_currency) =
           (case api env base_currency of None \<Rightarrow> Inl RequestError | Some data \<Rightarrow> Inr data)"
  using assms by (simp add: get_cached_rate_def split: option.split)

theorem get_cached_rate_degraded_witness:
  "get_cached_rate
     \<lparr>CACHE_TTL = 300, api = (\<lambda>b. if b = ''USD'' then Some ''{rates: {BRL: 5.0}}'' else None),
      json_dumps = (\<lambda>x. x), json_loads = Some\<rparr>
     \<lparr>clock = 10, get_raises = False, keys_raises = False, set_raises = False,
       delete_raises = False\<rparr>
     \<lparr>redis_client = None, redis_data = [(''rates:USD'', ''stale'', 100)]\<rparr> ''USD''
   = (Inr ''{rates: {BRL: 5.0}}'',
      \<lparr>redis_client = None, redis_data = [(''rates:USD'', ''stale'', 100)]\<rparr>)"
  using get_cached_rate_degraded
    [where st = "\<lparr>redis_client = None, redis_data = [(''rates:USD'', ''stale'', 100)]\<rparr>"
       and env = "\<lparr>CACHE_TTL = 300, api = (\<lambda>b. if b = ''USD'' then Some ''{rates: {BRL: 5.0}}'' else None),
          json_dumps = (\<lambda>x. x), json_loads = Some\<rparr>"
       and c = "\<lparr>clock = 10, get_raises = False, keys_raises = False, set_raises = False,
       delete_raises = False\<rparr>"
       and base_currency = "''USD''"]
  by (simp add: prod_eq_iff)


section \<open>The debug listing of the rate service\<close>

text \<open>
  C2 claims that \<^verbatim>\<open>GET /cache\<close> answers an empty mapping of cached rates when
  \<^verbatim>\<open>redis_client\<close> is \<^verbatim>\<open>None\<close>. It does not: the first branch of \<^verbatim>\<open>get_cache\<close> returns the
  payload \<^verbatim>\<open>{"error": "Redis not connected"}\<close>.
\<close>

theorem get_cache_disconnected_counterexample:
  "get_cache \<lparr>clock = 0, get_raises = False, keys_raises = False, set_raises = False,
       delete_raises = False\<rparr>
     \<lparr>redis_client = None, redis_data = []\<rparr> \<noteq> Inr (Cached_rates [])"
  by (simp add: get_cache_def)

text \<open>
  C2, amended. When \<^verbatim>\<open>redis_client\<close> is \<^verbatim>\<open>None\<close> the answer of \<^verbatim>\<open>GET /cache\<close> is the error
  payload \<^verbatim>\<open>{"error": "Redis not connected"}\<close>. The empty mapping
  \<^verbatim>\<open>{"cached_rates": {}}\<close> is the answer when the client is connected and no live key
  starts with \<^verbatim>\<open>rates:\<close>.
\<close>

theorem get_cache_disconnected:
  "(redis_client st = None \<longrightarrow>
      get_cache c st = Inr (Error_payload ''Redis not connected'')) \<and>
   (redis_client st = Some client \<longrightarrow> redis_keys c (redis_data st) ''rates:'' = Inr [] \<longrightarrow>
      get_cache c st = Inr (Cached_rates []))"
  by (simp add: get_cache_def)

theorem get_cache_disconnected_witness:
  "get_cache \<lparr>clock = 0, get_raises = False, keys_raises = False, set_raises = False,
       delete_raises = False\<rparr>
     \<lparr>redis_client = None, redis_data = [(''rates:USD'', ''payload'', 300)]\<rparr>
     = Inr (Error_payload ''Redis not connected'') \<and>
   get_cache \<lparr>clock = 0, get_raises = False, keys_raises = False, set_raises = False,
       delete_raises = False\<rparr>
     \<lparr>redis_client = Some Redis, redis_data = [(''user:1'', ''payload'', 300)]\<rparr>
     = Inr (Cached_rates [])"
proof -
  have "redis_keys \<lparr>clock = 0, get_raises = False, keys_raises = False, set_raises = False,
       delete_raises = False\<rparr>
          [(''user:1'', ''payload'', 300)] ''rates:'' = Inr []"
    by (simp add: redis_keys_def live_value_def)
  then show ?thesis
    using get_cache_disconnected
            [where st = "\<lparr>redis_client = None, redis_data = [(''rates:USD'', ''payload'', 300)]\<rparr>"
               and c = "\<lparr>clock = 0, get_raises = False, keys_raises = False, set_raises = False,
       delete_raises = False\<rparr>"]
          get_cache_disconnected
            [where st = "\<lparr>redis_client = Some Redis, redis_data = [(''user:1'', ''payload'', 300)]\<rparr>"
               and client = Redis and c = "\<lparr>clock = 0, get_raises = False, keys_raises = False, set_raises = False,
       delete_raises = False\<rparr>"]
    by simp
qed


section \<open>A hit in the user cache\<close>

text \<open>
  C10. When the client is connected and the entry \<^verbatim>\<open>user:{id}\<close> is live, not empty and
  parses to a user, \<^verbatim>\<open>GET /user/{id}\<close> answers that user with status 200 and the whole
  state is the one before the request: the users table is neither read nor written, and
  the cache entry keeps its value and its expiry.
\<close>

theorem get_user_cache_hit:
  assumes "redis_client st = Some client"
    and "redis_get c (redis_data st) (''user:'' @ uid) = Inr (Some s)"
    and "s \<noteq> []"
    and "parse_user env s = Some u"
  shows "get_user env c st uid = (Response 200 u, st)"
  using assms by (simp add: get_user_def get_cached_user_def truthy_def)

theorem get_user_cache_hit_witness:
  "get_user
     \<lparr>CACHE_TTL = 300, user_json = (\<lambda>u. user_id u @ ''|'' @ name u),
      parse_user = (\<lambda>s. if s = ''1|Ana'' then Some \<lparr>user_id = ''1'', name = ''Ana''\<rparr> else None)\<rparr>
     \<lparr>clock = 50, get_raises = False, keys_raises = False, set_raises = True,
       delete_raises = True\<rparr>
     \<lparr>redis_client = Some Redis, redis_data = [(''user:1'', ''1|Ana'', 60)],
      users = [''1'' \<mapsto> ''Bia'']\<rparr> ''1''
   = (Response 200 \<lparr>user_id = ''1'', name = ''Ana''\<rparr>,
      \<lparr>redis_client = Some Redis, redis_data = [(''user:1'', ''1|Ana'', 60)],
       users = [''1'' \<mapsto> ''Bia'']\<rparr>)"
  using get_user_cache_hit
    [where st = "\<lparr>redis_client = Some Redis, redis_data = [(''user:1'', ''1|Ana'', 60)],
          users = [''1'' \<mapsto> ''Bia'']\<rparr>"
       and client = Redis and c = "\<lparr>clock = 50, get_raises = False, keys_raises = False, set_raises = True,
       delete_raises = True\<rparr>"
       and uid = "''1''" and s = "''1|Ana''"
       and env = "\<lparr>CACHE_TTL = 300, user_json = (\<lambda>u. user_id u @ ''|'' @ name u),
          parse_user = (\<lambda>s. if s = ''1|Ana'' then Some \<lparr>user_id = ''1'', name = ''Ana''\<rparr> else None)\<rparr>"
       and u = "\<lparr>user_id = ''1'', name = ''Ana''\<rparr>"]
  by (simp add: redis_get_def live_value_def)


section \<open>A failed cache write does not fail the request\<close>

text \<open>
  C9. On a miss (the client is connected and \<^verbatim>\<open>GET\<close> answers nothing, or the empty string)
  \<^verbatim>\<open>get_cached_rate\<close> returns the freshly fetched payload whatever the cache write does;
  when the write raises, the exception is swallowed and the state is left as it was. In
  the user service \<^verbatim>\<open>cache_user\<close> behaves the same way: when the write raises it returns
  with the state unchanged, so \<^verbatim>\<open>GET /user/{id}\<close> on a miss still answers 200 with the
  row of the table, or with the default user when there is none.
\<close>

theorem cache_write_failure_swallowed:
  assumes "redis_client st = Some client"
    and "redis_get c (redis_data st) (''rates:'' @ base_currency) = Inr cached"
    and "\<not> truthy cached"
    and "api env base_currency = Some data"
    and "redis_client ust = Some client"
    and "redis_get c (redis_data ust) (''user:'' @ uid) = Inr ucached"
    and "\<not> truthy ucached"
  shows "fst (get_cached_rate env c st base_currency) = Inr data \<and>
         (set_raises c \<longrightarrow> snd (get_cached_rate env c st base_currency) = st) \<and>
         (set_raises c \<longrightarrow> cache_user uenv c ust u = ust) \<and>
         fst (get_user uenv c ust uid) =
           Response 200 \<lparr>user_id = uid,
             name = (case users ust uid of None \<Rightarrow> ''John Doe'' | Some n \<Rightarrow> n)\<rparr> \<and>
         (set_raises c \<longrightarrow> redis_data (snd (get_user uenv c ust uid)) = redis_data ust)"
proof -
  have rate: "fst (get_cached_rate env c st base_currency) = Inr data"
    using assms(1,2,3,4)
    by (simp add: get_cached_rate_def fetch_and_cache_def split: sum.split)
  have rate_frame: "snd (get_cached_rate env c st base_currency) = st" if "set_raises c"
    using assms(1,2,3,4) that
    by (simp add: get_cached_rate_def fetch_and_cache_def redis_set_def)
  have cu: "cache_user uenv c s0 u0 = s0" if "set_raises c" for s0 u0
    using that by (simp add: cache_user_def redis_set_def split: option.split)
  have user: "fst (get_user uenv c ust uid) =
           Response 200 \<lparr>user_id = uid,
             name = (case users ust uid of None \<Rightarrow> ''John Doe'' | Some n \<Rightarrow> n)\<rparr>"
    using assms(5,6,7)
    by (simp add: get_user_def get_cached_user_def UserRepository_get_user_def
          UserRepository_insert_default_user_def split: option.split)
  have user_frame: "redis_data (snd (get_user uenv c ust uid)) = redis_data ust"
    if "set_raises c"
    using assms(5,6,7) that
    by (simp add: get_user_def get_cached_user_def UserRepository_get_user_def
          UserRepository_insert_default_user_def cu split: option.split)
  from rate rate_frame cu user user_frame show ?thesis by blast
qed

theorem cache_write_failure_swallowed_witness:
  "fst (get_cached_rate
     \<lparr>CACHE_TTL = 300, api = (\<lambda>b. if b = ''USD'' then Some ''{rates: {BRL: 5.0}}'' else None),
      json_dumps = (\<lambda>x. x), json_loads = Some\<rparr>
     \<lparr>clock = 10, get_raises = False, keys_raises = False, set_raises = True,
       delete_raises = False\<rparr>
     \<lparr>redis_client = Some Redis, redis_data = []\<rparr> ''USD'')
   = Inr ''{rates: {BRL: 5.0}}'' \<and>
   fst (get_user
     \<lparr>CACHE_TTL = 300, user_json = (\<lambda>u. user_id u @ ''|'' @ name u), parse_user = (\<lambda>s. None)\<rparr>
     \<lparr>clock = 10, get_raises = False, keys_raises = False, set_raises = True,
       delete_raises = False\<rparr>
     \<lparr>redis_client = Some Redis, redis_data = [], users = [''1'' \<mapsto> ''Bia'']\<rparr> ''1'')
   = Response 200 \<lparr>user_id = ''1'', name = ''Bia''\<rparr> \<and>
   snd (get_cached_rate
     \<lparr>CACHE_TTL = 300, api = (\<lambda>b. if b = ''USD'' then Some ''{rates: {BRL: 5.0}}'' else None),
      json_dumps = (\<lambda>x. x), json_loads = Some\<rparr>
     \<lparr>clock = 10, get_raises = False, keys_raises = False, set_raises = True,
       delete_raises = False\<rparr>
     \<lparr>redis_client = Some Redis, redis_data = []\<rparr> ''USD'')
   = \<lparr>redis_client = Some Redis, redis_data = []\<rparr>"
  using cache_write_failure_swallowed
    [where st = "\<lparr>redis_client = Some Redis, redis_data = []\<rparr>"
       and client = Redis
       and c = "\<lparr>clock = 10, get_raises = False, keys_raises = False, set_raises = True,
       delete_raises = False\<rparr>"
       and base_currency = "''USD''"
       and env = "\<lparr>CACHE_TTL = 300,
          api = (\<lambda>b. if b = ''USD'' then Some ''{rates: {BRL: 5.0}}'' else None),
          json_dumps = (\<lambda>x. x), json_loads = Some\<rparr>"
       and data = "''{rates: {BRL: 5.0}}''" and cached = None and ucached = None
       and ust = "\<lparr>redis_client = Some Redis, redis_data = [], users = [''1'' \<mapsto> ''Bia'']\<rparr>"
       and uid = "''1''"
       and uenv = "\<lparr>CACHE_TTL = 300, user_json = (\<lambda>u. user_id u @ ''|'' @ name u),
          parse_user = (\<lambda>s. None)\<rparr>"]
  by (simp add: redis_get_def live_value_def truthy_def)


section \<open>Delete, then get\<close>

text \<open>
  What \<^verbatim>\<open>DELETE /user/{id}\<close> does on an existing row: the answer is 204 and the row is gone,
  whatever the cache does. The cache entry is removed only when the client is connected
  and the \<^verbatim>\<open>DEL\<close> goes through: \<^verbatim>\<open>delete_cached_user\<close> swallows a failed \<^verbatim>\<open>DEL\<close>.
\<close>

lemma delete_user_existing:
  assumes "users st uid = Some n"
  shows "delete_user c st uid =
           (Response 204 (), delete_cached_user c (st\<lparr>users := (users st)(uid := None)\<rparr>) uid)"
  using assms by (simp add: delete_user_def UserRepository_delete_user_def)

lemma delete_cached_user_users: "users (delete_cached_user c st uid) = users st"
  by (simp add: delete_cached_user_def split: option.split sum.split)

lemma delete_cached_user_client: "redis_client (delete_cached_user c st uid) = redis_client st"
  by (simp add: delete_cached_user_def split: option.split sum.split)

lemma delete_user_removes_entry:
  assumes "users st uid = Some n" and "redis_client st = Some client" and "\<not> delete_raises c"
  shows "map_of (redis_data (snd (delete_user c st uid))) (''user:'' @ uid) = None"
  using assms
  by (simp add: delete_user_existing delete_cached_user_def redis_delete_def delete_conv')

text \<open>
  C7 claims that a \<^verbatim>\<open>DELETE /user/{id}\<close> that answers 204 removes the row and the cache
  entry, so that the \<^verbatim>\<open>GET /user/{id}\<close> after it answers the default user and not the
  deleted record. It does not when the \<^verbatim>\<open>DEL\<close> raises. Below the row of user 1 is Ana and
  is cached; the \<^verbatim>\<open>DEL\<close> raises and is swallowed, the answer is 204, the row is gone, and
  the \<^verbatim>\<open>GET\<close> ten seconds later is a cache hit that answers Ana.
\<close>

theorem delete_then_get_stale_counterexample:
  "fst (delete_user
     \<lparr>clock = 10, get_raises = False, keys_raises = False, set_raises = False,
       delete_raises = True\<rparr>
     \<lparr>redis_client = Some Redis, redis_data = [(''user:1'', ''1|Ana'', 60)],
      users = [''1'' \<mapsto> ''Ana'']\<rparr> ''1'') = Response 204 () \<and>
   users (snd (delete_user
     \<lparr>clock = 10, get_raises = False, keys_raises = False, set_raises = False,
       delete_raises = True\<rparr>
     \<lparr>redis_client = Some Redis, redis_data = [(''user:1'', ''1|Ana'', 60)],
      users = [''1'' \<mapsto> ''Ana'']\<rparr> ''1'')) ''1'' = None \<and>
   fst (get_user
     \<lparr>CACHE_TTL = 300, user_json = (\<lambda>u. user_id u @ ''|'' @ name u),
      parse_user = (\<lambda>s. if s = ''1|Ana'' then Some \<lparr>user_id = ''1'', name = ''Ana''\<rparr> else None)\<rparr>
     \<lparr>clock = 20, get_raises = False, keys_raises = False, set_raises = False,
       delete_raises = False\<rparr>
     (snd (delete_user
        \<lparr>clock = 10, get_raises = False, keys_raises = False, set_raises = False,
          delete_raises = True\<rparr>
        \<lparr>redis_client = Some Redis, redis_data = [(''user:1'', ''1|Ana'', 60)],
         users = [''1'' \<mapsto> ''Ana'']\<rparr> ''1'')) ''1'')
   = Response 200 \<lparr>user_id = ''1'', name = ''Ana''\<rparr>"
  by (simp add: delete_user_def UserRepository_delete_user_def delete_cached_user_def
        redis_delete_def get_user_def get_cached_user_def redis_get_def live_value_def
        truthy_def)

text \<open>
  C7, amended. For every user id, \<^verbatim>\<open>DELETE /user/{id}\<close> on an existing row answers 204 and
  removes the row. When the client is not connected, or the \<^verbatim>\<open>DEL\<close> goes through and the
  cache read of the next request answers, the \<^verbatim>\<open>GET /user/{id}\<close> that follows answers the
  default user, with the name John Doe, whatever name the deleted row had, and provisions
  it in the table.
\<close>

theorem delete_then_get_default:
  assumes "users st uid = Some n"
    and "redis_client st = None \<or> (\<not> delete_raises c1 \<and> \<not> get_raises c2)"
  shows "fst (delete_user c1 st uid) = Response 204 () \<and>
         users (snd (delete_user c1 st uid)) uid = None \<and>
         fst (get_user env c2 (snd (delete_user c1 st uid)) uid) =
           Response 200 \<lparr>user_id = uid, name = ''John Doe''\<rparr> \<and>
         users (snd (get_user env c2 (snd (delete_user c1 st uid)) uid)) uid =
           Some ''John Doe''"
proof -
  define st1 where "st1 = snd (delete_user c1 st uid)"
  have answer: "fst (delete_user c1 st uid) = Response 204 ()"
    using assms(1) by (simp add: delete_user_existing)
  have gone: "users st1 uid = None"
    using assms(1) by (simp add: st1_def delete_user_existing delete_cached_user_users)
  have client: "redis_client st1 = redis_client st"
    using assms(1) by (simp add: st1_def delete_user_existing delete_cached_user_client)
  have miss: "get_cached_user env c2 st1 uid = (Inr None, st1)"
  proof (cases "redis_client st")
    case None
    with client show ?thesis by (simp add: get_cached_user_def)
  next
    case (Some client')
    with assms(2) have ok: "\<not> delete_raises c1" "\<not> get_raises c2" by simp_all
    from delete_user_removes_entry [OF assms(1) Some ok(1)]
    have "map_of (redis_data st1) (''user:'' @ uid) = None" by (simp add: st1_def)
    with Some client ok(2) show ?thesis
      by (simp add: get_cached_user_def redis_get_def live_value_def truthy_def)
  qed
  have keep: "users (cache_user env c2 s0 u0) = users s0" for s0 u0
    by (simp add: cache_user_def split: option.split sum.split)
  from gone miss
  have "fst (get_user env c2 st1 uid) = Response 200 \<lparr>user_id = uid, name = ''John Doe''\<rparr>"
    and "users (snd (get_user env c2 st1 uid)) uid = Some ''John Doe''"
    by (simp_all add: get_user_def UserRepository_get_user_def
          UserRepository_insert_default_user_def keep)
  with answer gone show ?thesis by (simp add: st1_def)
qed

theorem delete_then_get_default_witness:
  "fst (delete_user
     \<lparr>clock = 10, get_raises = False, keys_raises = False, set_raises = False,
       delete_raises = False\<rparr>
     \<lparr>redis_client = Some Redis, redis_data = [(''user:1'', ''1|Ana'', 60)],
      users = [''1'' \<mapsto> ''Ana'']\<rparr> ''1'') = Response 204 () \<and>
   fst (get_user
     \<lparr>CACHE_TTL = 300, user_json = (\<lambda>u. user_id u @ ''|'' @ name u),
      parse_user = (\<lambda>s. if s = ''1|Ana'' then Some \<lparr>user_id = ''1'', name = ''Ana''\<rparr> else None)\<rparr>
     \<lparr>clock = 20, get_raises = False, keys_raises = False, set_raises = False,
       delete_raises = False\<rparr>
     (snd (delete_user
        \<lparr>clock = 10, get_raises = False, keys_raises = False, set_raises = False,
          delete_raises = False\<rparr>
        \<lparr>redis_client = Some Redis, redis_data = [(''user:1'', ''1|Ana'', 60)],
         users = [''1'' \<mapsto> ''Ana'']\<rparr> ''1'')) ''1'')
   = Response 200 \<lparr>user_id = ''1'', name = ''John Doe''\<rparr>"
  using delete_then_get_default
    [where st = "\<lparr>redis_client = Some Redis, redis_data = [(''user:1'', ''1|Ana'', 60)],
                  users = [''1'' \<mapsto> ''Ana'']\<rparr>"
       and uid = "''1''" and n = "''Ana''"
       and ?c1.0 = "\<lparr>clock = 10, get_raises = False, keys_raises = False, set_raises = False,
                      delete_raises = False\<rparr>"
       and ?c2.0 = "\<lparr>clock = 20, get_raises = False, keys_raises = False, set_raises = False,
                      delete_raises = False\<rparr>"
       and env = "\<lparr>CACHE_TTL = 300, user_json = (\<lambda>u. user_id u @ ''|'' @ name u),
          parse_user = (\<lambda>s. if s = ''1|Ana'' then Some \<lparr>user_id = ''1'', name = ''Ana''\<rparr> else None)\<rparr>"]
  by simp


section \<open>Creating and updating a user\<close>

text \<open>
  What \<^verbatim>\<open>cache_user\<close> leaves in the store: the new entry with a fresh expiry when the
  client is connected and the \<^verbatim>\<open>SET\<close> goes through, the old store otherwise.
\<close>

lemma User_rebuilt [simp]: "\<lparr>user_id = user_id u, name = name u\<rparr> = (u :: User)"
  by (cases u) simp

lemma cache_user_users [simp]: "users (cache_user env c st u) = users st"
  by (simp add: cache_user_def split: option.split sum.split)

lemma cache_user_client [simp]: "redis_client (cache_user env c st u) = redis_client st"
  by (simp add: cache_user_def split: option.split sum.split)

lemma cache_user_data:
  "redis_data (cache_user env c st u) =
     (if redis_client st \<noteq> None \<and> \<not> set_raises c \<and> 0 < CACHE_TTL env
      then AList.update (''user:'' @ user_id u) (user_json env u, clock c + CACHE_TTL env)
             (redis_data st)
      else redis_data st)"
  by (auto simp add: cache_user_def redis_set_def split: option.split)

text \<open>
  C5 claims that \<^verbatim>\<open>POST /user\<close> on a new id inserts the row, caches it and answers 201.
  The row is inserted and the answer is 201, but the row is cached only when the write
  to the cache goes through: \<^verbatim>\<open>cache_user\<close> returns at once without a client and swallows
  a failed \<^verbatim>\<open>SET\<close>. Below the \<^verbatim>\<open>SET\<close> raises, the answer is 201 and no entry \<^verbatim>\<open>user:7\<close>
  exists afterwards.
\<close>

theorem create_user_not_cached_counterexample:
  "fst (create_user
     \<lparr>CACHE_TTL = 300, user_json = (\<lambda>u. user_id u @ ''|'' @ name u), parse_user = (\<lambda>s. None)\<rparr>
     \<lparr>clock = 10, get_raises = False, keys_raises = False, set_raises = True,
       delete_raises = False\<rparr>
     \<lparr>redis_client = Some Redis, redis_data = [], users = Map.empty\<rparr>
     \<lparr>user_id = ''7'', name = ''Ana''\<rparr>)
   = Response 201 \<lparr>user_id = ''7'', name = ''Ana''\<rparr> \<and>
   redis_data (snd (create_user
     \<lparr>CACHE_TTL = 300, user_json = (\<lambda>u. user_id u @ ''|'' @ name u), parse_user = (\<lambda>s. None)\<rparr>
     \<lparr>clock = 10, get_raises = False, keys_raises = False, set_raises = True,
       delete_raises = False\<rparr>
     \<lparr>redis_client = Some Redis, redis_data = [], users = Map.empty\<rparr>
     \<lparr>user_id = ''7'', name = ''Ana''\<rparr>)) = []"
  by (simp add: create_user_def UserRepository_create_user_def cache_user_def redis_set_def)

text \<open>
  C5, amended. For every id already in the users table, \<^verbatim>\<open>POST /user\<close> with that id
  answers 409 and leaves the state, hence the row with its id and name, unchanged. On an
  id that is not in the table it inserts the row and answers 201 with the user; it
  caches the user under \<^verbatim>\<open>user:{id}\<close> with the configured expiry when the client is
  connected and the \<^verbatim>\<open>SET\<close> goes through, and leaves the cache as it was otherwise.
\<close>

theorem create_user_conflict_or_insert:
  "(users st (user_id u) = Some old \<longrightarrow>
      create_user env c st u = (HTTPException 409 ''User already exists'', st)) \<and>
   (users st (user_id u) = None \<longrightarrow>
      fst (create_user env c st u) = Response 201 u \<and>
      users (snd (create_user env c st u)) = (users st)(user_id u \<mapsto> name u) \<and>
      redis_data (snd (create_user env c st u)) =
        (if redis_client st \<noteq> None \<and> \<not> set_raises c \<and> 0 < CACHE_TTL env
         then AList.update (''user:'' @ user_id u) (user_json env u, clock c + CACHE_TTL env)
             (redis_data st)
         else redis_data st))"
  by (simp add: create_user_def UserRepository_create_user_def cache_user_data)

theorem create_user_conflict_or_insert_witness:
  "create_user
     \<lparr>CACHE_TTL = 300, user_json = (\<lambda>u. user_id u @ ''|'' @ name u), parse_user = (\<lambda>s. None)\<rparr>
     \<lparr>clock = 10, get_raises = False, keys_raises = False, set_raises = False,
       delete_raises = False\<rparr>
     \<lparr>redis_client = Some Redis, redis_data = [], users = [''7'' \<mapsto> ''Bia'']\<rparr>
     \<lparr>user_id = ''7'', name = ''Ana''\<rparr>
   = (HTTPException 409 ''User already exists'',
      \<lparr>redis_client = Some Redis, redis_data = [], users = [''7'' \<mapsto> ''Bia'']\<rparr>) \<and>
   redis_data (snd (create_user
     \<lparr>CACHE_TTL = 300, user_json = (\<lambda>u. user_id u @ ''|'' @ name u), parse_user = (\<lambda>s. None)\<rparr>
     \<lparr>clock = 10, get_raises = False, keys_raises = False, set_raises = False,
       delete_raises = False\<rparr>
     \<lparr>redis_client = Some Redis, redis_data = [], users = Map.empty\<rparr>
     \<lparr>user_id = ''7'', name = ''Ana''\<rparr>)) = [(''user:7'', ''7|Ana'', 310)] \<and>
   fst (create_user
     \<lparr>CACHE_TTL = 300, user_json = (\<lambda>u. user_id u @ ''|'' @ name u), parse_user = (\<lambda>s. None)\<rparr>
     \<lparr>clock = 10, get_raises = False, keys_raises = False, set_raises = False,
       delete_raises = False\<rparr>
     \<lparr>redis_client = Some Redis, redis_data = [], users = Map.empty\<rparr>
     \<lparr>user_id = ''7'', name = ''Ana''\<rparr>) = Response 201 \<lparr>user_id = ''7'', name = ''Ana''\<rparr>"
  using create_user_conflict_or_insert
    [where st = "\<lparr>redis_client = Some Redis, redis_data = [], users = [''7'' \<mapsto> ''Bia'']\<rparr>"
       and u = "\<lparr>user_id = ''7'', name = ''Ana''\<rparr>" and old = "''Bia''"
       and env = "\<lparr>CACHE_TTL = 300, user_json = (\<lambda>u. user_id u @ ''|'' @ name u),
                   parse_user = (\<lambda>s. None)\<rparr>"
       and c = "\<lparr>clock = 10, get_raises = False, keys_raises = False, set_raises = False,
       delete_raises = False\<rparr>"]
    create_user_conflict_or_insert
    [where st = "\<lparr>redis_client = Some Redis, redis_data = [], users = Map.empty\<rparr>"
       and u = "\<lparr>user_id = ''7'', name = ''Ana''\<rparr>"
       and env = "\<lparr>CACHE_TTL = 300, user_json = (\<lambda>u. user_id u @ ''|'' @ name u),
                   parse_user = (\<lambda>s. None)\<rparr>"
       and c = "\<lparr>clock = 10, get_raises = False, keys_raises = False, set_raises = False,
       delete_raises = False\<rparr>"]
  by simp


text \<open>
  C6 claims that \<^verbatim>\<open>PUT /user/{id}\<close> on an existing id overwrites the cache entry with the
  updated user. It does so only when the write to the cache goes through. Below the
  \<^verbatim>\<open>SET\<close> raises: the row is renamed, the answer carries the new name, and the entry
  \<^verbatim>\<open>user:7\<close> still holds the old one.
\<close>

theorem update_user_stale_cache_counterexample:
  "fst (update_user
     \<lparr>CACHE_TTL = 300, user_json = (\<lambda>u. user_id u @ ''|'' @ name u), parse_user = (\<lambda>s. None)\<rparr>
     \<lparr>clock = 10, get_raises = False, keys_raises = False, set_raises = True,
       delete_raises = False\<rparr>
     \<lparr>redis_client = Some Redis, redis_data = [(''user:7'', ''7|Bia'', 200)],
      users = [''7'' \<mapsto> ''Bia'']\<rparr> ''7'' ''Ana'')
   = Response 200 \<lparr>user_id = ''7'', name = ''Ana''\<rparr> \<and>
   redis_data (snd (update_user
     \<lparr>CACHE_TTL = 300, user_json = (\<lambda>u. user_id u @ ''|'' @ name u), parse_user = (\<lambda>s. None)\<rparr>
     \<lparr>clock = 10, get_raises = False, keys_raises = False, set_raises = True,
       delete_raises = False\<rparr>
     \<lparr>redis_client = Some Redis, redis_data = [(''user:7'', ''7|Bia'', 200)],
      users = [''7'' \<mapsto> ''Bia'']\<rparr> ''7'' ''Ana'')) = [(''user:7'', ''7|Bia'', 200)]"
  by (simp add: update_user_def UserRepository_update_user_def cache_user_def redis_set_def)

text \<open>
  C6, amended. For every id that is not in the users table, \<^verbatim>\<open>PUT /user/{id}\<close> answers
  404 and leaves the state, hence the table and the cache entry \<^verbatim>\<open>user:{id}\<close>, unchanged.
  For every id in the table it sets the row's name and answers 200 with the updated
  user; it overwrites the cache entry \<^verbatim>\<open>user:{id}\<close> with the updated user when the client
  is connected and the \<^verbatim>\<open>SET\<close> goes through, and leaves the cache as it was otherwise.
\<close>

theorem update_user_missing_or_renamed:
  "(users st uid = None \<longrightarrow>
      update_user env c st uid new_name = (HTTPException 404 ''User not found'', st)) \<and>
   (users st uid = Some old \<longrightarrow>
      fst (update_user env c st uid new_name) =
        Response 200 \<lparr>user_id = uid, name = new_name\<rparr> \<and>
      users (snd (update_user env c st uid new_name)) = (users st)(uid \<mapsto> new_name) \<and>
      redis_data (snd (update_user env c st uid new_name)) =
        (if redis_client st \<noteq> None \<and> \<not> set_raises c \<and> 0 < CACHE_TTL env
         then AList.update (''user:'' @ uid)
                (user_json env \<lparr>user_id = uid, name = new_name\<rparr>, clock c + CACHE_TTL env)
                (redis_data st)
         else redis_data st))"
  by (simp add: update_user_def UserRepository_update_user_def cache_user_data)

theorem update_user_missing_or_renamed_witness:
  "update_user
     \<lparr>CACHE_TTL = 300, user_json = (\<lambda>u. user_id u @ ''|'' @ name u), parse_user = (\<lambda>s. None)\<rparr>
     \<lparr>clock = 10, get_raises = False, keys_raises = False, set_raises = False,
       delete_raises = False\<rparr>
     \<lparr>redis_client = Some Redis, redis_data = [(''user:42'', ''42|Eve'', 200)],
      users = [''7'' \<mapsto> ''Bia'']\<rparr> ''42'' ''Alice''
   = (HTTPException 404 ''User not found'',
      \<lparr>redis_client = Some Redis, redis_data = [(''user:42'', ''42|Eve'', 200)],
       users = [''7'' \<mapsto> ''Bia'']\<rparr>) \<and>
   redis_data (snd (update_user
     \<lparr>CACHE_TTL = 300, user_json = (\<lambda>u. user_id u @ ''|'' @ name u), parse_user = (\<lambda>s. None)\<rparr>
     \<lparr>clock = 10, get_raises = False, keys_raises = False, set_raises = False,
       delete_raises = False\<rparr>
     \<lparr>redis_client = Some Redis, redis_data = [(''user:7'', ''7|Bia'', 200)],
      users = [''7'' \<mapsto> ''Bia'']\<rparr> ''7'' ''Ana'')) = [(''user:7'', ''7|Ana'', 310)] \<and>
   users (snd (update_user
     \<lparr>CACHE_TTL = 300, user_json = (\<lambda>u. user_id u @ ''|'' @ name u), parse_user = (\<lambda>s. None)\<rparr>
     \<lparr>clock = 10, get_raises = False, keys_raises = False, set_raises = False,
       delete_raises = False\<rparr>
     \<lparr>redis_client = Some Redis, redis_data = [(''user:7'', ''7|Bia'', 200)],
      users = [''7'' \<mapsto> ''Bia'']\<rparr> ''7'' ''Ana'')) ''7'' = Some ''Ana''"
  using update_user_missing_or_renamed
    [where st = "\<lparr>redis_client = Some Redis, redis_data = [(''user:42'', ''42|Eve'', 200)],
                  users = [''7'' \<mapsto> ''Bia'']\<rparr>"
       and uid = "''42''" and new_name = "''Alice''"
       and env = "\<lparr>CACHE_TTL = 300, user_json = (\<lambda>u. user_id u @ ''|'' @ name u),
                   parse_user = (\<lambda>s. None)\<rparr>"
       and c = "\<lparr>clock = 10, get_raises = False, keys_raises = False, set_raises = False,
       delete_raises = False\<rparr>"]
    update_user_missing_or_renamed
    [where st = "\<lparr>redis_client = Some Redis, redis_data = [(''user:7'', ''7|Bia'', 200)],
                  users = [''7'' \<mapsto> ''Bia'']\<rparr>"
       and uid = "''7''" and new_name = "''Ana''" and old = "''Bia''"
       and env = "\<lparr>CACHE_TTL = 300, user_json = (\<lambda>u. user_id u @ ''|'' @ name u),
                   parse_user = (\<lambda>s. None)\<rparr>"
       and c = "\<lparr>clock = 10, get_raises = False, keys_raises = False, set_raises = False,
       delete_raises = False\<rparr>"]
  by simp


section \<open>Corrupt cache entries\<close>

text \<open>
  C3 claims that an entry whose value fails to deserialize is never returned, is deleted,
  and is replaced by the result of the fetch. The first part holds. The rest holds only
  when the cache lets it:
  \<^item> when the \<^verbatim>\<open>SET\<close> raises, the entry is deleted and the fetched payload is returned,
    but nothing replaces the entry;
  \<^item> an empty value is false in \<^verbatim>\<open>if cached\<close>, so it is handled as a miss and not
    deleted; when the \<^verbatim>\<open>SET\<close> raises as well it is still there after the call;
  \<^item> the \<^verbatim>\<open>DEL\<close> in the \<^verbatim>\<open>except\<close> branch is not guarded, so when it raises the call
    raises instead of going on to the fetch.
\<close>

theorem corrupt_entry_not_replaced_counterexample:
  "get_cached_rate
     \<lparr>CACHE_TTL = 300, api = (\<lambda>b. Some ''fresh''), json_dumps = (\<lambda>x. x),
      json_loads = (\<lambda>s. if s = ''fresh'' then Some s else None)\<rparr>
     \<lparr>clock = 10, get_raises = False, keys_raises = False, set_raises = True,
       delete_raises = False\<rparr>
     \<lparr>redis_client = Some Redis, redis_data = [(''rates:USD'', ''garbage'', 100)]\<rparr> ''USD''
   = (Inr ''fresh'', \<lparr>redis_client = Some Redis, redis_data = []\<rparr>) \<and>
   get_cached_rate
     \<lparr>CACHE_TTL = 300, api = (\<lambda>b. Some ''fresh''), json_dumps = (\<lambda>x. x),
      json_loads = (\<lambda>s. if s = ''fresh'' then Some s else None)\<rparr>
     \<lparr>clock = 10, get_raises = False, keys_raises = False, set_raises = True,
       delete_raises = False\<rparr>
     \<lparr>redis_client = Some Redis, redis_data = [(''rates:USD'', [], 100)]\<rparr> ''USD''
   = (Inr ''fresh'', \<lparr>redis_client = Some Redis, redis_data = [(''rates:USD'', [], 100)]\<rparr>) \<and>
   get_cached_rate
     \<lparr>CACHE_TTL = 300, api = (\<lambda>b. Some ''fresh''), json_dumps = (\<lambda>x. x),
      json_loads = (\<lambda>s. if s = ''fresh'' then Some s else None)\<rparr>
     \<lparr>clock = 10, get_raises = False, keys_raises = False, set_raises = False,
       delete_raises = True\<rparr>
     \<lparr>redis_client = Some Redis, redis_data = [(''rates:USD'', ''garbage'', 100)]\<rparr> ''USD''
   = (Inl RedisError,
      \<lparr>redis_client = Some Redis, redis_data = [(''rates:USD'', ''garbage'', 100)]\<rparr>)"
  by (simp add: get_cached_rate_def fetch_and_cache_def redis_get_def live_value_def redis_set_def
        redis_delete_def truthy_def)

text \<open>
  C3, amended. Let the client be connected and the live value of the entry fail to
  deserialize. Then no call returns it: whatever \<^verbatim>\<open>get_cached_rate\<close> returns is the
  upstream's payload, and \<^verbatim>\<open>get_cached_user\<close> returns no user. When the value is not
  empty and the \<^verbatim>\<open>DEL\<close> goes through, the corrupt entry is deleted and the call falls
  through to the authoritative source: \<^verbatim>\<open>get_cached_rate\<close> returns the result of the
  fetch, \<^verbatim>\<open>GET /user/{id}\<close> answers the row of the table (or the default user), and that
  result replaces the entry in the cache when the \<^verbatim>\<open>SET\<close> goes through; otherwise the
  entry stays deleted.
\<close>

theorem corrupt_entry_discarded:
  assumes "redis_client st = Some client"
    and "redis_get c (redis_data st) (''rates:'' @ base_currency) = Inr (Some s)"
    and "json_loads env s = None"
    and "redis_client ust = Some client"
    and "redis_get c (redis_data ust) (''user:'' @ uid) = Inr (Some us)"
    and "parse_user uenv us = None"
  shows "(\<forall>x. fst (get_cached_rate env c st base_currency) = Inr x \<longrightarrow>
              api env base_currency = Some x) \<and>
         (\<forall>u. fst (get_cached_user uenv c ust uid) \<noteq> Inr (Some u)) \<and>
         (s \<noteq> [] \<and> \<not> delete_raises c \<longrightarrow>
            fst (get_cached_rate env c st base_currency) =
              (case api env base_currency of None \<Rightarrow> Inl RequestError | Some data \<Rightarrow> Inr data) \<and>
            redis_data (snd (get_cached_rate env c st base_currency)) =
              (case api env base_currency of
                 None \<Rightarrow> AList.delete (''rates:'' @ base_currency) (redis_data st)
               | Some data \<Rightarrow>
                   if \<not> set_raises c \<and> 0 < CACHE_TTL env
                   then AList.update (''rates:'' @ base_currency)
                          (json_dumps env data, clock c + CACHE_TTL env)
                          (AList.delete (''rates:'' @ base_currency) (redis_data st))
                   else AList.delete (''rates:'' @ base_currency) (redis_data st))) \<and>
         (us \<noteq> [] \<and> \<not> delete_raises c \<longrightarrow>
            get_cached_user uenv c ust uid =
              (Inr None, ust\<lparr>redis_data := AList.delete (''user:'' @ uid) (redis_data ust)\<rparr>) \<and>
            fst (get_user uenv c ust uid) =
              Response 200 \<lparr>user_id = uid,
                name = (case users ust uid of None \<Rightarrow> ''John Doe'' | Some n \<Rightarrow> n)\<rparr> \<and>
            redis_data (snd (get_user uenv c ust uid)) =
              (if \<not> set_raises c \<and> 0 < CACHE_TTL uenv
               then AList.update (''user:'' @ uid)
                      (user_json uenv \<lparr>user_id = uid,
                         name = (case users ust uid of None \<Rightarrow> ''John Doe'' | Some n \<Rightarrow> n)\<rparr>,
                       clock c + CACHE_TTL uenv)
                      (AList.delete (''user:'' @ uid) (redis_data ust))
               else AList.delete (''user:'' @ uid) (redis_data ust)))"
proof -
  have r1: "\<forall>x. fst (get_cached_rate env c st base_currency) = Inr x \<longrightarrow>
              api env base_currency = Some x"
    using assms(1,2,3)
    by (auto simp add: get_cached_rate_def fetch_and_cache_def truthy_def
          split: option.splits sum.splits)
  have u1: "\<forall>u. fst (get_cached_user uenv c ust uid) \<noteq> Inr (Some u)"
    using assms(4,5,6)
    by (auto simp add: get_cached_user_def truthy_def split: sum.splits)
  have r2: "fst (get_cached_rate env c st base_currency) =
              (case api env base_currency of None \<Rightarrow> Inl RequestError | Some data \<Rightarrow> Inr data)"
    if "s \<noteq> []" "\<not> delete_raises c"
    using assms(1,2,3) that
    by (simp add: get_cached_rate_def fetch_and_cache_def truthy_def redis_delete_def
          Let_def split: option.split sum.split)
  have r3: "redis_data (snd (get_cached_rate env c st base_currency)) =
              (case api env base_currency of
                 None \<Rightarrow> AList.delete (''rates:'' @ base_currency) (redis_data st)
               | Some data \<Rightarrow>
                   if \<not> set_raises c \<and> 0 < CACHE_TTL env
                   then AList.update (''rates:'' @ base_currency)
                          (json_dumps env data, clock c + CACHE_TTL env)
                          (AList.delete (''rates:'' @ base_currency) (redis_data st))
                   else AList.delete (''rates:'' @ base_currency) (redis_data st))"
    if "s \<noteq> []" "\<not> delete_raises c"
    using assms(1,2,3) that
    by (simp add: get_cached_rate_def fetch_and_cache_def truthy_def redis_delete_def
          redis_set_def Let_def split: option.split)
  have u2: "get_cached_user uenv c ust uid =
              (Inr None, ust\<lparr>redis_data := AList.delete (''user:'' @ uid) (redis_data ust)\<rparr>)"
    if "us \<noteq> []" "\<not> delete_raises c"
    using assms(4,5,6) that
    by (simp add: get_cached_user_def truthy_def redis_delete_def)
  have u3: "fst (get_user uenv c ust uid) =
              Response 200 \<lparr>user_id = uid,
                name = (case users ust uid of None \<Rightarrow> ''John Doe'' | Some n \<Rightarrow> n)\<rparr>"
    if "us \<noteq> []" "\<not> delete_raises c"
    using u2 [OF that]
    by (simp add: get_user_def UserRepository_get_user_def
          UserRepository_insert_default_user_def split: option.split)
  have u4: "redis_data (snd (get_user uenv c ust uid)) =
              (if \<not> set_raises c \<and> 0 < CACHE_TTL uenv
               then AList.update (''user:'' @ uid)
                      (user_json uenv \<lparr>user_id = uid,
                         name = (case users ust uid of None \<Rightarrow> ''John Doe'' | Some n \<Rightarrow> n)\<rparr>,
                       clock c + CACHE_TTL uenv)
                      (AList.delete (''user:'' @ uid) (redis_data ust))
               else AList.delete (''user:'' @ uid) (redis_data ust))"
    if "us \<noteq> []" "\<not> delete_raises c"
    using u2 [OF that] assms(4)
    by (simp add: get_user_def UserRepository_get_user_def
          UserRepository_insert_default_user_def cache_user_data split: option.split)
  from r1 u1 r2 r3 u2 u3 u4 show ?thesis by blast
qed


theorem corrupt_entry_discarded_witness:
  "fst (get_cached_rate
     \<lparr>CACHE_TTL = 300, api = (\<lambda>b. Some ''fresh''), json_dumps = (\<lambda>x. x),
      json_loads = (\<lambda>s. if s = ''fresh'' then Some s else None)\<rparr>
     \<lparr>clock = 10, get_raises = False, keys_raises = False, set_raises = False,
       delete_raises = False\<rparr>
     \<lparr>redis_client = Some Redis, redis_data = [(''rates:USD'', ''garbage'', 100)]\<rparr> ''USD'')
   = Inr ''fresh'' \<and>
   redis_data (snd (get_cached_rate
     \<lparr>CACHE_TTL = 300, api = (\<lambda>b. Some ''fresh''), json_dumps = (\<lambda>x. x),
      json_loads = (\<lambda>s. if s = ''fresh'' then Some s else None)\<rparr>
     \<lparr>clock = 10, get_raises = False, keys_raises = False, set_raises = False,
       delete_raises = False\<rparr>
     \<lparr>redis_client = Some Redis, redis_data = [(''rates:USD'', ''garbage'', 100)]\<rparr> ''USD''))
     = [(''rates:USD'', ''fresh'', 310)] \<and>
   fst (get_user
     \<lparr>CACHE_TTL = 300, user_json = (\<lambda>u. user_id u @ ''|'' @ name u), parse_user = (\<lambda>s. None)\<rparr>
     \<lparr>clock = 10, get_raises = False, keys_raises = False, set_raises = False,
       delete_raises = False\<rparr>
     \<lparr>redis_client = Some Redis, redis_data = [(''user:1'', ''garbage'', 100)],
      users = [''1'' \<mapsto> ''Bia'']\<rparr> ''1'')
   = Response 200 \<lparr>user_id = ''1'', name = ''Bia''\<rparr> \<and>
   redis_data (snd (get_user
     \<lparr>CACHE_TTL = 300, user_json = (\<lambda>u. user_id u @ ''|'' @ name u), parse_user = (\<lambda>s. None)\<rparr>
     \<lparr>clock = 10, get_raises = False, keys_raises = False, set_raises = False,
       delete_raises = False\<rparr>
     \<lparr>redis_client = Some Redis, redis_data = [(''user:1'', ''garbage'', 100)],
      users = [''1'' \<mapsto> ''Bia'']\<rparr> ''1'')) = [(''user:1'', ''1|Bia'', 310)]"
  using corrupt_entry_discarded
    [where st = "\<lparr>redis_client = Some Redis, redis_data = [(''rates:USD'', ''garbage'', 100)]\<rparr>"
       and client = Redis
       and c = "\<lparr>clock = 10, get_raises = False, keys_raises = False, set_raises = False,
       delete_raises = False\<rparr>"
       and base_currency = "''USD''" and s = "''garbage''"
       and env = "\<lparr>CACHE_TTL = 300, api = (\<lambda>b. Some ''fresh''), json_dumps = (\<lambda>x. x),
                   json_loads = (\<lambda>s. if s = ''fresh'' then Some s else None)\<rparr>"
       and ust = "\<lparr>redis_client = Some Redis, redis_data = [(''user:1'', ''garbage'', 100)],
                   users = [''1'' \<mapsto> ''Bia'']\<rparr>"
       and uid = "''1''" and us = "''garbage''"
       and uenv = "\<lparr>CACHE_TTL = 300, user_json = (\<lambda>u. user_id u @ ''|'' @ name u),
                    parse_user = (\<lambda>s. None)\<rparr>"]
  by (simp add: redis_get_def live_value_def)


section \<open>What a warm cache serves\<close>

text \<open>
  The cache side of C1. Let a call of \<^verbatim>\<open>get_cached_rate\<close> at the instant \<open>clock c1\<close> go to
  the upstream (a miss, or a corrupt entry that it deleted), fetch \<open>data\<close> and write it to
  the cache. A second call for the same base currency while the entry is live, that is
  before \<open>clock c1 + CACHE_TTL\<close>, does not go to the upstream: it returns what
  \<^verbatim>\<open>json.loads\<close> makes of the text that \<^verbatim>\<open>json.dumps\<close> wrote for \<open>data\<close>, and leaves the
  state alone.

  C1 says more: that this value is \<open>data\<close> itself. That is the round trip of Python's
  \<^verbatim>\<open>json\<close> module, on every payload the upstream can send. The module is a parameter of
  this theory, so the round trip is not established here and C1 stays open; the lemma
  below is what the source contributes to it.
\<close>

lemma warm_cache_returns_stored_text:
  assumes "redis_client st = Some client"
    and "redis_get c1 (redis_data st) (''rates:'' @ base_currency) = Inr cached"
    and "\<not> truthy cached \<or> (json_loads env (the cached) = None \<and> \<not> delete_raises c1)"
    and "api env base_currency = Some data"
    and "\<not> set_raises c1"
    and "\<not> get_raises c2"
    and "clock c2 < clock c1 + CACHE_TTL env"
    and "clock c1 \<le> clock c2"
    and "json_dumps env data \<noteq> []"
    and "json_loads env (json_dumps env data) = Some reloaded"
  shows "fst (get_cached_rate env c1 st base_currency) = Inr data \<and>
         get_cached_rate (env\<lparr>api := later\<rparr>) c2
             (snd (get_cached_rate env c1 st base_currency)) base_currency
           = (Inr reloaded, snd (get_cached_rate env c1 st base_currency))"
proof -
  let ?key = "''rates:'' @ base_currency"
  let ?st1 = "snd (get_cached_rate env c1 st base_currency)"
  from assms(7,8) have ttl: "0 < CACHE_TTL env" by simp
  have first: "fst (get_cached_rate env c1 st base_currency) = Inr data"
    using assms(1,2,3,4)
    by (auto simp add: get_cached_rate_def fetch_and_cache_def redis_delete_def Let_def
          split: option.split sum.split)
  have client: "redis_client ?st1 = Some client"
    using assms(1,2,3,4)
    by (auto simp add: get_cached_rate_def fetch_and_cache_def redis_delete_def Let_def
          split: option.split sum.split)
  have entry: "map_of (redis_data ?st1) ?key =
      Some (json_dumps env data, clock c1 + CACHE_TTL env)"
    using assms(1,2,3,4,5) ttl
    by (auto simp add: get_cached_rate_def fetch_and_cache_def redis_set_def redis_delete_def
          Let_def update_conv' split: option.split)
  have second: "get_cached_rate (env\<lparr>api := later\<rparr>) c2 ?st1 base_currency
      = (Inr reloaded, ?st1)"
    using client entry assms(6,7,9,10)
    by (simp add: get_cached_rate_def redis_get_def live_value_def truthy_def)
  from first second show ?thesis by simp
qed


section \<open>Converting dollars to reais\<close>

text \<open>
  Three properties of the float model: \<open>ilog2\<close> is the binary exponent, an integer below
  \<open>2 ^ 53\<close> is a float and rounds to itself, and a whole number is printed with two
  zeros after the point. They give the product of 100.0 and 5.0, which is exact.
\<close>

lemma bit_length_bounds:
  "0 < n \<Longrightarrow> 2 ^ (bit_length n - 1) \<le> n \<and> n < 2 ^ bit_length n"
proof (induction n rule: bit_length.induct)
  case (1 n)
  show ?case
  proof (cases "n div 2 = 0")
    case True
    with "1.prems" have "n = 1" by (auto simp add: div_eq_0_iff)
    then show ?thesis by (simp add: bit_length.simps)
  next
    case False
    then have pos: "0 < n div 2" by simp
    from "1.prems" have n0: "n \<noteq> 0" by simp
    from "1.IH" [OF n0 pos]
    have lo: "2 ^ (bit_length (n div 2) - 1) \<le> n div 2"
      and hi: "n div 2 < 2 ^ bit_length (n div 2)" by simp_all
    have bl: "bit_length n = Suc (bit_length (n div 2))"
      using n0 by (subst bit_length.simps) simp
    have b1: "0 < bit_length (n div 2)"
      using pos by (subst bit_length.simps) simp
    from lo have "2 * 2 ^ (bit_length (n div 2) - 1) \<le> n" by linarith
    moreover have "2 * 2 ^ (bit_length (n div 2) - 1) = (2::nat) ^ bit_length (n div 2)"
      using b1 by (cases "bit_length (n div 2)") simp_all
    moreover from hi have "n < 2 * 2 ^ bit_length (n div 2)" by linarith
    ultimately show ?thesis by (simp add: bl)
  qed
qed

lemma bit_length_pos: "0 < n \<Longrightarrow> 0 < bit_length n"
  by (subst bit_length.simps) simp

lemma ilog2_bounds:
  assumes "0 < q"
  shows "pow2 (ilog2 q) \<le> q \<and> q < pow2 (ilog2 q + 1)"
proof (cases "1 \<le> q")
  case True
  define n where "n = nat \<lfloor>q\<rfloor>"
  define b where "b = bit_length n"
  from True have n1: "0 < n" by (simp add: n_def)
  from bit_length_bounds [OF n1] have lo: "2 ^ (b - 1) \<le> n" and hi: "n < 2 ^ b"
    by (simp_all add: b_def)
  from bit_length_pos [OF n1] have b1: "0 < b" by (simp add: b_def)
  have il: "ilog2 q = int b - 1" using True by (simp add: ilog2_def n_def b_def)
  have nq: "rat_of_nat n \<le> q" using True by (simp add: n_def)
  have qn: "q < rat_of_nat n + 1" using True by (simp add: n_def) linarith
  have p1: "pow2 (ilog2 q) = 2 ^ (b - 1)"
    using b1 by (simp add: il pow2_def nat_diff_distrib')
  have p2: "pow2 (ilog2 q + 1) = 2 ^ b"
    by (simp add: il pow2_def)
  from lo have below: "(2::rat) ^ (b - 1) \<le> rat_of_nat n"
    by (metis of_nat_le_iff of_nat_numeral of_nat_power)
  from hi have above: "rat_of_nat n + 1 \<le> 2 ^ b"
    by (metis Suc_leI of_nat_Suc of_nat_le_iff of_nat_numeral of_nat_power add.commute)
  show ?thesis
    unfolding p1 p2 using below above nq qn by linarith
next
  case False
  define y where "y = \<lceil>1 / q\<rceil>"
  define m where "m = nat (y - 1)"
  define b where "b = bit_length m"
  from False assms have inv: "1 < 1 / q" by simp
  then have y2: "2 \<le> y" unfolding y_def by (simp add: le_ceiling_iff)
  then have m1: "0 < m" by (simp add: m_def)
  from bit_length_bounds [OF m1] have lo: "2 ^ (b - 1) \<le> m" and hi: "m < 2 ^ b"
    by (simp_all add: b_def)
  from bit_length_pos [OF m1] have b1: "0 < b" by (simp add: b_def)
  have il: "ilog2 q = - int b" using False by (simp add: ilog2_def m_def b_def y_def)
  have "rat_of_nat m = of_int (y - 1)"
    unfolding m_def using y2 by (subst of_nat_nat) simp_all
  then have cast: "rat_of_nat m = of_int y - 1" by simp
  have m_lt: "rat_of_nat m < 1 / q"
    unfolding cast y_def using ceiling_correct [of "1 / q"] by linarith
  have le_m: "1 / q \<le> rat_of_nat m + 1"
    unfolding cast y_def using ceiling_correct [of "1 / q"] by linarith
  from hi have "rat_of_nat m + 1 \<le> 2 ^ b"
    by (metis Suc_leI of_nat_Suc of_nat_le_iff of_nat_numeral of_nat_power add.commute)
  with le_m have up: "1 / q \<le> 2 ^ b" by linarith
  from lo have "(2::rat) ^ (b - 1) \<le> rat_of_nat m"
    by (metis of_nat_le_iff of_nat_numeral of_nat_power)
  with m_lt have down: "2 ^ (b - 1) < 1 / q" by linarith
  have p1: "pow2 (ilog2 q) = 1 / 2 ^ b"
    using b1 by (simp add: il pow2_def)
  have p2: "pow2 (ilog2 q + 1) = 1 / 2 ^ (b - 1)"
    using b1 by (cases b) (simp_all add: il pow2_def nat_diff_distrib')
  from up assms have q_lo: "1 / 2 ^ b \<le> q"
    by (simp add: field_simps)
  from down assms have q_hi: "q < 1 / 2 ^ (b - 1)"
    by (simp add: field_simps)
  show ?thesis
    unfolding p1 p2 using q_lo q_hi by (rule conjI)
qed









end
